theory Spec2Isabelle
  imports Main
begin

text \<open>
  The embedded-object protocol layer of the Power BI JavaScript SDK: the load directives
  of \<open>Report\<close> and \<open>Tile\<close> (report.ts, tile.ts) and the remote operations of \<open>Page\<close>
  (page.ts). Thrown values and rejections are results; the calls an operation makes on
  the report's channel are recorded in the state it returns.
\<close>

section \<open>JavaScript values\<close>

text \<open>
  The values that cross the postMessage channel, are thrown, or are held in loosely
  typed option fields. Numbers are restricted to integers; functions and host objects
  are not values of this type. \<open>JError m\<close> is \<open>new Error(m)\<close>; \<open>JTypeError\<close> is the
  TypeError the engine raises on a property read of \<open>undefined\<close> or \<open>null\<close> and on a
  call of a non-function (its message is engine specific and is not modelled).
\<close>

datatype jsval =
    JUndefined
  | JNull
  | JBool bool
  | JNum int
  | JStr string
  | JArr "jsval list"
  | JObj "(string \<times> jsval) list"
  | JError string
  | JTypeError

text \<open>The \<open>typeof\<close> operator.\<close>

fun typeof_js :: "jsval \<Rightarrow> string" where
  "typeof_js JUndefined = ''undefined''"
| "typeof_js JNull = ''object''"
| "typeof_js (JBool b) = ''boolean''"
| "typeof_js (JNum n) = ''number''"
| "typeof_js (JStr s) = ''string''"
| "typeof_js (JArr vs) = ''object''"
| "typeof_js (JObj fs) = ''object''"
| "typeof_js (JError m) = ''object''"
| "typeof_js JTypeError = ''object''"

text \<open>ToBoolean, as applied by \<open>!\<close> and \<open>if\<close>.\<close>

fun truthy :: "jsval \<Rightarrow> bool" where
  "truthy JUndefined = False"
| "truthy JNull = False"
| "truthy (JBool b) = b"
| "truthy (JNum n) = (n \<noteq> 0)"
| "truthy (JStr s) = (s \<noteq> [])"
| "truthy (JArr vs) = True"
| "truthy (JObj fs) = True"
| "truthy (JError m) = True"
| "truthy JTypeError = True"

fun nullish :: "jsval \<Rightarrow> bool" where
  "nullish JUndefined = True"
| "nullish JNull = True"
| "nullish v = False"

text \<open>
  The value of \<open>v.k\<close> where the read does not throw. Only own data properties are
  modelled, and \<open>name\<close>/\<open>message\<close> of error objects; the keys read by the code below
  (\<open>body\<close>, \<open>name\<close>, \<open>title\<close>, \<open>type\<close>, \<open>layout\<close>) are not prototype properties of
  objects, arrays or primitives.
\<close>

fun own_prop :: "jsval \<Rightarrow> string \<Rightarrow> jsval" where
  "own_prop (JObj fs) k = (case map_of fs k of Some v \<Rightarrow> v | None \<Rightarrow> JUndefined)"
| "own_prop (JError m) k =
     (if k = ''message'' then JStr m else if k = ''name'' then JStr ''Error'' else JUndefined)"
| "own_prop JTypeError k = (if k = ''name'' then JStr ''TypeError'' else JUndefined)"
| "own_prop v k = JUndefined"

text \<open>The property read \<open>v.k\<close>: \<open>Inl\<close> is the thrown value.\<close>

definition get_prop :: "jsval \<Rightarrow> string \<Rightarrow> jsval + jsval" where
  "get_prop v k = (if nullish v then Inl JTypeError else Inr (own_prop v k))"

text \<open>
  Number::toString on an integer: the decimal digits, most significant first, after a
  minus sign for a negative number. \<open>digit_char\<close> is applied to numbers below ten only.
\<close>

definition digit_char :: "nat \<Rightarrow> char" where
  "digit_char d = ''0123456789'' ! d"

function decimal :: "nat \<Rightarrow> string \<Rightarrow> string" where
  "decimal n acc =
     (if n < 10 then digit_char n # acc
      else decimal (n div 10) (digit_char (n mod 10) # acc))"
  by pat_completeness auto
termination
  by (relation "measure fst") auto

definition number_to_string :: "int \<Rightarrow> string" where
  "number_to_string i =
     (if i < 0 then CHR ''-'' # decimal (nat (- i)) [] else decimal (nat i) [])"

fun join_with :: "string \<Rightarrow> string list \<Rightarrow> string" where
  "join_with sep [] = []"
| "join_with sep [s] = s"
| "join_with sep (s # t # ss) = s @ sep @ join_with sep (t # ss)"

text \<open>ToString, as applied to the substitutions of a template literal.\<close>

fun js_to_string :: "jsval \<Rightarrow> string" where
  "js_to_string JUndefined = ''undefined''"
| "js_to_string JNull = ''null''"
| "js_to_string (JBool b) = (if b then ''true'' else ''false'')"
| "js_to_string (JNum n) = number_to_string n"
| "js_to_string (JStr s) = s"
| "js_to_string (JArr vs) =
     join_with '','' (map (\<lambda>v. if nullish v then [] else js_to_string v) vs)"
| "js_to_string (JObj fs) = ''[object Object]''"
| "js_to_string (JError m) = (if m = [] then ''Error'' else ''Error: '' @ m)"
| "js_to_string JTypeError = ''TypeError''"


section \<open>Report and Tile (report.ts, tile.ts)\<close>

text \<open>
  \<open>IEmbedOptions\<close>. The interface is declared in embed.ts; the fields are the ones the
  specification lists. \<open>id\<close> and \<open>filterPaneEnabled\<close> are tested dynamically by the code
  (\<open>typeof\<close>, \<open>!\<close>) and are kept as JavaScript values.
\<close>

record embed_options =
  options_id :: jsval
  options_type :: jsval
  options_embedUrl :: jsval
  options_accessToken :: jsval
  filterPaneEnabled :: jsval

text \<open>The part of an \<open>Embed\<close> instance that the subclasses read: \<open>this.options\<close>.\<close>

record embed =
  options :: embed_options

text \<open>
  \<open>Report.getEmbedUrl\<close>. \<open>super_getEmbedUrl\<close> is \<open>super.getEmbedUrl()\<close> of the base class
  \<open>Embed\<close>, taken as a parameter.
\<close>

definition Report_getEmbedUrl :: "(embed \<Rightarrow> string) \<Rightarrow> embed \<Rightarrow> string" where
  "Report_getEmbedUrl super_getEmbedUrl this =
     (let embedUrl = super_getEmbedUrl this in
      if \<not> truthy (filterPaneEnabled (options this))
      then embedUrl @ ''&filterPaneEnabled=false''
      else embedUrl)"

definition Tile_getEmbedUrl :: "(embed \<Rightarrow> string) \<Rightarrow> embed \<Rightarrow> string" where
  "Tile_getEmbedUrl super_getEmbedUrl this =
     (let embedUrl = super_getEmbedUrl this in embedUrl)"

text \<open>
  \<open>load\<close> returns nothing or throws: \<open>Inl\<close> is the thrown value. The state \<open>'s\<close> is
  whatever the base class's \<open>load\<close> acts on; \<open>super_load\<close> is
  \<open>super.load(options, requireId, message)\<close>, taken as a parameter.
\<close>

type_synonym 's load =
  "embed_options \<Rightarrow> bool \<Rightarrow> jsval \<Rightarrow> 's \<Rightarrow> (jsval + unit) \<times> 's"

definition Report_load :: "'s load \<Rightarrow> embed_options \<Rightarrow> bool \<Rightarrow> 's \<Rightarrow> (jsval + unit) \<times> 's" where
  "Report_load super_load opts requireId s =
     (if requireId \<and> typeof_js (options_id opts) \<noteq> ''string''
      then (Inl (JError ''id must be specified when loading reports on existing elements.''), s)
      else let message = JObj [(''action'', JStr ''loadReport''),
                               (''reportId'', options_id opts),
                               (''accessToken'', JNull)]
           in super_load opts requireId message s)"

definition Tile_load :: "'s load \<Rightarrow> embed_options \<Rightarrow> bool \<Rightarrow> 's \<Rightarrow> (jsval + unit) \<times> 's" where
  "Tile_load super_load opts requireId s =
     (if requireId \<and> typeof_js (options_id opts) \<noteq> ''string''
      then (Inl (JError ''id must be specified when loading reports on existing elements.''), s)
      else let message = JObj [(''action'', JStr ''loadTile''),
                               (''tileId'', options_id opts),
                               (''accessToken'', JNull)]
           in super_load opts requireId message s)"

text \<open>
  Modelled from the spec: \<open>Embed.load\<close> of embed.ts, which is not among the sources.
  The specification (4.1, 4.2): the base load performs the \<open>requireId\<close> precondition
  check, failing with an invalid-argument error and sending no message; otherwise it
  dispatches the directive built by the subclass through the channel, exactly one
  outbound load message per call. The channel is the list of messages dispatched so
  far; the invalid-argument error of the base class is the parameter \<open>invalid\<close>.
\<close>

definition Embed_load :: "jsval \<Rightarrow> (jsval list) load" where
  "Embed_load invalid opts requireId message channel =
     (if requireId \<and> typeof_js (options_id opts) \<noteq> ''string''
      then (Inl invalid, channel)
      else (Inr (), channel @ [message]))"


section \<open>Page (page.ts)\<close>

subsection \<open>The owning report and the channel\<close>

text \<open>
  The channel \<open>report.service.hpm\<close> is the external request/response collaborator.
  A call is one of the methods the page uses, with its arguments in the order of the
  call: \<open>get(url, headers, targetWindow)\<close>, \<open>put(url, body, headers, targetWindow)\<close>,
  \<open>delete(url, body, headers, targetWindow)\<close>. The returned promise resolves, rejects
  or never settles. A call that throws synchronously is caught by the same \<open>catch\<close> as
  a rejection of the awaited promise, so it is a rejection here.
\<close>

type_synonym window = nat

datatype hpm_call =
    HpmGet string jsval window
  | HpmPut string jsval jsval window
  | HpmDelete string jsval jsval window

datatype channel_outcome = Resolves jsval | Rejects jsval | NeverSettles

record service =
  hpm :: "hpm_call \<Rightarrow> channel_outcome"

record iframe_element =
  contentWindow :: window

record embed_configuration =
  uniqueId :: string
  embedUrl :: string

text \<open>\<open>IReportNode\<close>: the fields of the owning report that the page reads.\<close>

record report_node =
  iframe :: iframe_element
  service :: service
  config :: embed_configuration

subsection \<open>The page\<close>

datatype SectionVisibility = AlwaysVisible | HiddenInViewMode

text \<open>
  The fields of class \<open>Page\<close>. The constructor's optional parameters are \<open>undefined\<close>
  when omitted: \<open>None\<close>, or \<open>JUndefined\<close> for the fields typed by powerbi-models objects.
\<close>

record page =
  report :: report_node
  name :: string
  displayName :: "string option"
  isActive :: "bool option"
  visibility :: "SectionVisibility option"
  defaultSize :: jsval
  defaultDisplayOption :: jsval

definition Page_new ::
  "report_node \<Rightarrow> string \<Rightarrow> string option \<Rightarrow> bool option \<Rightarrow> SectionVisibility option \<Rightarrow>
   jsval \<Rightarrow> jsval \<Rightarrow> page" where
  "Page_new rep nm dn isActivePage vis dsize ddisplay =
     \<lparr> report = rep, name = nm, displayName = dn, isActive = isActivePage,
       visibility = vis, defaultSize = dsize, defaultDisplayOption = ddisplay \<rparr>"

text \<open>
  Modelled from the spec: class \<open>VisualDescriptor\<close> of visualDescriptor.ts, which is
  not among the sources. The specification (3): it is constructed only from a page's
  visual-listing response and carries the owning-page reference, \<open>name\<close>, \<open>title\<close>,
  \<open>type\<close> and \<open>layout\<close>. The constructor takes them in the order of the call in
  \<open>getVisuals\<close>.
\<close>

record visual_descriptor =
  vd_page :: page
  vd_name :: jsval
  vd_title :: jsval
  vd_type :: jsval
  vd_layout :: jsval

definition VisualDescriptor_new ::
  "page \<Rightarrow> jsval \<Rightarrow> jsval \<Rightarrow> jsval \<Rightarrow> jsval \<Rightarrow> visual_descriptor" where
  "VisualDescriptor_new p n t ty l =
     \<lparr> vd_page = p, vd_name = n, vd_title = t, vd_type = ty, vd_layout = l \<rparr>"

text \<open>
  What the promise returned by a page operation settles with: a value that came over
  the channel (or \<open>undefined\<close>), or the array of \<open>VisualDescriptor\<close> instances built by
  \<open>getVisuals\<close>; a rejection carries the thrown value.
\<close>

datatype settled_value = Data jsval | Descriptors "visual_descriptor list"

datatype promise = Fulfilled settled_value | Rejected jsval | Pending

text \<open>
  The state an operation acts on: the page object \<open>this\<close> (with the owning report it
  references) and the calls made on the channel so far, oldest first.
\<close>

record page_state =
  self :: page
  sent :: "hpm_call list"

text \<open>
  What page.ts imports from util.ts, errors.ts and powerbi-models, taken as parameters:
  the predicate \<open>utils.isRDLEmbed\<close>, the constant \<open>errors.APINotSupportedForRDLError\<close>
  and the enum object lookup \<open>models.LayoutType[layoutType]\<close>.
\<close>

record externals =
  isRDLEmbed :: "string \<Rightarrow> bool"
  APINotSupportedForRDLError :: jsval
  LayoutType :: "jsval \<Rightarrow> jsval"

text \<open>One call on the report's channel: the call is recorded and answered.\<close>

definition hpm_request :: "hpm_call \<Rightarrow> page_state \<Rightarrow> channel_outcome \<times> page_state" where
  "hpm_request c st = (hpm (service (report (self st))) c, st\<lparr>sent := sent st @ [c]\<rparr>)"

text \<open>\<open>catch (response) { throw response.body; }\<close>\<close>

definition throw_body :: "jsval \<Rightarrow> promise" where
  "throw_body response =
     (case get_prop response ''body'' of Inl e \<Rightarrow> Rejected e | Inr b \<Rightarrow> Rejected b)"

text \<open>The scoping headers \<open>{ uid: this.report.config.uniqueId }\<close>.\<close>

definition uid_headers :: "page \<Rightarrow> jsval" where
  "uid_headers this = JObj [(''uid'', JStr (uniqueId (config (report this))))]"

definition getFilters :: "page_state \<Rightarrow> promise \<times> page_state" where
  "getFilters st =
     (let this = self st;
          (outcome, st') =
             hpm_request (HpmGet (''/report/pages/'' @ name this @ ''/filters'')
                                 (uid_headers this)
                                 (contentWindow (iframe (report this)))) st
      in (case outcome of
            Resolves response \<Rightarrow>
              (case get_prop response ''body'' of
                 Inr b \<Rightarrow> Fulfilled (Data b)
               | Inl e \<Rightarrow> throw_body e)
          | Rejects response \<Rightarrow> throw_body response
          | NeverSettles \<Rightarrow> Pending, st'))"

definition delete :: "page_state \<Rightarrow> promise \<times> page_state" where
  "delete st =
     (let this = self st;
          (outcome, st') =
             hpm_request (HpmDelete (''/report/pages/'' @ name this)
                                    (JObj [])
                                    (uid_headers this)
                                    (contentWindow (iframe (report this)))) st
      in (case outcome of
            Resolves response \<Rightarrow>
              (case get_prop response ''body'' of
                 Inr b \<Rightarrow> Fulfilled (Data b)
               | Inl e \<Rightarrow> throw_body e)
          | Rejects response \<Rightarrow> throw_body response
          | NeverSettles \<Rightarrow> Pending, st'))"

definition setFilters :: "jsval \<Rightarrow> page_state \<Rightarrow> promise \<times> page_state" where
  "setFilters filters st =
     (let this = self st;
          (outcome, st') =
             hpm_request (HpmPut (''/report/pages/'' @ name this @ ''/filters'')
                                 filters
                                 (uid_headers this)
                                 (contentWindow (iframe (report this)))) st
      in (case outcome of
            Resolves response \<Rightarrow> Fulfilled (Data response)
          | Rejects response \<Rightarrow> throw_body response
          | NeverSettles \<Rightarrow> Pending, st'))"

definition removeFilters :: "page_state \<Rightarrow> promise \<times> page_state" where
  "removeFilters st = setFilters (JArr []) st"

definition setActive :: "page_state \<Rightarrow> promise \<times> page_state" where
  "setActive st =
     (let this = self st;
          page = JObj [(''name'', JStr (name this)),
                       (''displayName'', JNull),
                       (''isActive'', JBool True)];
          (outcome, st') =
             hpm_request (HpmPut ''/report/pages/active''
                                 page
                                 (uid_headers this)
                                 (contentWindow (iframe (report this)))) st
      in (case outcome of
            Resolves response \<Rightarrow> Fulfilled (Data response)
          | Rejects response \<Rightarrow> throw_body response
          | NeverSettles \<Rightarrow> Pending, st'))"

definition setDisplayName :: "jsval \<Rightarrow> page_state \<Rightarrow> promise \<times> page_state" where
  "setDisplayName dn st =
     (let this = self st;
          page = JObj [(''name'', JStr (name this)),
                       (''displayName'', dn)];
          (outcome, st') =
             hpm_request (HpmPut (''/report/pages/'' @ name this @ ''/name'')
                                 page
                                 (uid_headers this)
                                 (contentWindow (iframe (report this)))) st
      in (case outcome of
            Resolves response \<Rightarrow> Fulfilled (Data response)
          | Rejects response \<Rightarrow> throw_body response
          | NeverSettles \<Rightarrow> Pending, st'))"

text \<open>
  The callback of \<open>response.body.map\<close>: the four property reads of \<open>visual\<close>, in the
  order of the constructor's arguments, then the constructor.
\<close>

definition descriptor_of :: "page \<Rightarrow> jsval \<Rightarrow> jsval + visual_descriptor" where
  "descriptor_of this visual =
     (case get_prop visual ''name'' of Inl e \<Rightarrow> Inl e | Inr n \<Rightarrow>
       (case get_prop visual ''title'' of Inl e \<Rightarrow> Inl e | Inr t \<Rightarrow>
         (case get_prop visual ''type'' of Inl e \<Rightarrow> Inl e | Inr ty \<Rightarrow>
           (case get_prop visual ''layout'' of Inl e \<Rightarrow> Inl e | Inr l \<Rightarrow>
              Inr (VisualDescriptor_new this n t ty l)))))"

fun map_visuals :: "page \<Rightarrow> jsval list \<Rightarrow> jsval + visual_descriptor list" where
  "map_visuals this [] = Inr []"
| "map_visuals this (visual # rest) =
     (case descriptor_of this visual of
        Inl e \<Rightarrow> Inl e
      | Inr d \<Rightarrow> (case map_visuals this rest of Inl e \<Rightarrow> Inl e | Inr ds \<Rightarrow> Inr (d # ds)))"

text \<open>
  \<open>response.body.map(...)\<close>: on an array the elements are mapped in order; on
  \<open>undefined\<close> or \<open>null\<close> the read of \<open>map\<close> throws, and on any other value \<open>map\<close> is not
  a function and the call throws.
\<close>

definition body_map :: "page \<Rightarrow> jsval \<Rightarrow> jsval + visual_descriptor list" where
  "body_map this b = (case b of JArr visuals \<Rightarrow> map_visuals this visuals | _ \<Rightarrow> Inl JTypeError)"

definition getVisuals :: "externals \<Rightarrow> page_state \<Rightarrow> promise \<times> page_state" where
  "getVisuals ext st =
     (let this = self st in
      if isRDLEmbed ext (embedUrl (config (report this)))
      then (Rejected (APINotSupportedForRDLError ext), st)
      else
        let (outcome, st') =
              hpm_request (HpmGet (''/report/pages/'' @ name this @ ''/visuals'')
                                  (uid_headers this)
                                  (contentWindow (iframe (report this)))) st
        in (case outcome of
              Resolves response \<Rightarrow>
                (case get_prop response ''body'' of
                   Inl e \<Rightarrow> throw_body e
                 | Inr b \<Rightarrow>
                     (case body_map this b of
                        Inl e \<Rightarrow> throw_body e
                      | Inr ds \<Rightarrow> Fulfilled (Descriptors ds)))
            | Rejects response \<Rightarrow> throw_body response
            | NeverSettles \<Rightarrow> Pending, st'))"

definition hasLayout :: "externals \<Rightarrow> jsval \<Rightarrow> page_state \<Rightarrow> promise \<times> page_state" where
  "hasLayout ext layoutType st =
     (let this = self st in
      if isRDLEmbed ext (embedUrl (config (report this)))
      then (Rejected (APINotSupportedForRDLError ext), st)
      else
        let layoutTypeEnum = LayoutType ext layoutType;
            (outcome, st') =
              hpm_request (HpmGet (''/report/pages/'' @ name this @ ''/layoutTypes/''
                                     @ js_to_string layoutTypeEnum)
                                  (uid_headers this)
                                  (contentWindow (iframe (report this)))) st
        in (case outcome of
              Resolves response \<Rightarrow>
                (case get_prop response ''body'' of
                   Inr b \<Rightarrow> Fulfilled (Data b)
                 | Inl e \<Rightarrow> throw_body e)
            | Rejects response \<Rightarrow> throw_body response
            | NeverSettles \<Rightarrow> Pending, st'))"

text \<open>The remote operations of a page, as one call interface.\<close>

datatype page_op =
    GetFilters
  | Delete
  | RemoveFilters
  | SetActive
  | SetFilters jsval
  | SetDisplayName jsval
  | GetVisuals
  | HasLayout jsval

fun invoke :: "externals \<Rightarrow> page_op \<Rightarrow> page_state \<Rightarrow> promise \<times> page_state" where
  "invoke ext GetFilters st = getFilters st"
| "invoke ext Delete st = delete st"
| "invoke ext RemoveFilters st = removeFilters st"
| "invoke ext SetActive st = setActive st"
| "invoke ext (SetFilters filters) st = setFilters filters st"
| "invoke ext (SetDisplayName dn) st = setDisplayName dn st"
| "invoke ext GetVisuals st = getVisuals ext st"
| "invoke ext (HasLayout layoutType) st = hasLayout ext layoutType st"


section \<open>Example configuration\<close>

text \<open>
  A report whose channel gives the same answer to every call, a page of it, and sample
  values for the imported predicate, error constant and enum lookup; used to evaluate
  the operations on concrete inputs.
\<close>

definition example_options :: "jsval \<Rightarrow> jsval \<Rightarrow> embed_options" where
  "example_options i f =
     \<lparr> options_id = i, options_type = JStr ''report'',
       options_embedUrl = JStr ''https://app/reportEmbed?reportId=1'',
       options_accessToken = JStr ''token'', filterPaneEnabled = f \<rparr>"

text \<open>A base \<open>load\<close> that keeps the directives it is given, newest first.\<close>

definition example_super_load :: "(jsval list) load" where
  "example_super_load opts requireId message received = (Inr (), message # received)"

definition example_base_url :: "embed \<Rightarrow> string" where
  "example_base_url this = ''https://app/reportEmbed?reportId=1''"

definition example_report :: "channel_outcome \<Rightarrow> string \<Rightarrow> report_node" where
  "example_report answer url =
     \<lparr> iframe = \<lparr> contentWindow = 7 \<rparr>,
       service = \<lparr> hpm = (\<lambda>c. answer) \<rparr>,
       config = \<lparr> uniqueId = ''u1'', embedUrl = url \<rparr> \<rparr>"

definition example_state :: "channel_outcome \<Rightarrow> string \<Rightarrow> page_state" where
  "example_state answer url =
     \<lparr> self = Page_new (example_report answer url) ''ReportSection1'' (Some ''Overview'')
                (Some False) (Some AlwaysVisible) JUndefined JUndefined,
       sent = [] \<rparr>"

definition example_externals :: externals where
  "example_externals =
     \<lparr> isRDLEmbed = (\<lambda>url. url = ''https://app/rdlEmbed?reportId=1''),
       APINotSupportedForRDLError = JStr ''This API is not supported for RDL reports'',
       LayoutType = (\<lambda>v. if v = JStr ''Master'' then JNum 0 else JUndefined) \<rparr>"


section \<open>Properties\<close>

lemmas op_defs = getFilters_def delete_def setFilters_def removeFilters_def setActive_def
  setDisplayName_def getVisuals_def hasLayout_def hpm_request_def Let_def

lemmas example_defs = example_report_def example_state_def example_externals_def Page_new_def
  uid_headers_def

lemma throw_body_envelope: "map_of fs ''body'' = Some E \<Longrightarrow> throw_body (JObj fs) = Rejected E"
  by (simp add: throw_body_def get_prop_def)



lemma number_to_string_zero: "number_to_string 0 = ''0''"
  by code_simp

subsection \<open>Loading a report or a tile\<close>

text \<open>
  C1. With \<open>requireId = true\<close>: if \<open>options.id\<close> is not a string, \<open>Report.load\<close> and
  \<open>Tile.load\<close> throw the invalid-argument error, whatever the base class's \<open>load\<close> is,
  and leave the state the base \<open>load\<close> acts on as it was: no directive is built and the
  base \<open>load\<close> is not called. If \<open>options.id\<close> is a string, the guard does not throw:
  the call is the base class's \<open>load\<close> on the directive.
\<close>

theorem load_requires_id:
  "(typeof_js (options_id opts) \<noteq> ''string'' \<longrightarrow>
      Report_load super_load opts True s =
        (Inl (JError ''id must be specified when loading reports on existing elements.''), s) \<and>
      Tile_load super_load opts True s =
        (Inl (JError ''id must be specified when loading reports on existing elements.''), s)) \<and>
   (typeof_js (options_id opts) = ''string'' \<longrightarrow>
      Report_load super_load opts True s =
        super_load opts True
          (JObj [(''action'', JStr ''loadReport''), (''reportId'', options_id opts),
                 (''accessToken'', JNull)]) s \<and>
      Tile_load super_load opts True s =
        super_load opts True
          (JObj [(''action'', JStr ''loadTile''), (''tileId'', options_id opts),
                 (''accessToken'', JNull)]) s)"
  by (simp add: Report_load_def Tile_load_def)

theorem load_requires_id_witness:
  "typeof_js (options_id (example_options JUndefined JUndefined)) \<noteq> ''string'' \<and>
   Report_load example_super_load (example_options JUndefined JUndefined) True [] =
     (Inl (JError ''id must be specified when loading reports on existing elements.''), []) \<and>
   Tile_load example_super_load (example_options (JNum 5) JUndefined) True [] =
     (Inl (JError ''id must be specified when loading reports on existing elements.''), []) \<and>
   typeof_js (options_id (example_options (JStr ''abc'') JUndefined)) = ''string'' \<and>
   Report_load example_super_load (example_options (JStr ''abc'') JUndefined) True [] =
     (Inr (), [JObj [(''action'', JStr ''loadReport''), (''reportId'', JStr ''abc''),
                     (''accessToken'', JNull)]]) \<and>
   Tile_load example_super_load (example_options (JStr ''abc'') JUndefined) True [] =
     (Inr (), [JObj [(''action'', JStr ''loadTile''), (''tileId'', JStr ''abc''),
                     (''accessToken'', JNull)]])"
  using load_requires_id [of "example_options JUndefined JUndefined" example_super_load "[]"]
        load_requires_id [of "example_options (JNum 5) JUndefined" example_super_load "[]"]
        load_requires_id [of "example_options (JStr ''abc'') JUndefined" example_super_load "[]"]
  by (simp add: example_options_def example_super_load_def)

text \<open>
  C5. For options with a string id, \<open>Report.load\<close> hands the base class's \<open>load\<close>
  exactly \<open>{action: "loadReport", reportId: id, accessToken: null}\<close> and \<open>Tile.load\<close>
  exactly \<open>{action: "loadTile", tileId: id, accessToken: null}\<close>, for either value of
  \<open>requireId\<close>; with the base \<open>load\<close> of the specification, that directive is the one
  message dispatched. Nothing of the options but the id occurs in the directive.
\<close>

theorem load_directive:
  assumes "options_id opts = JStr i"
  shows "Report_load super_load opts requireId s =
           super_load opts requireId
             (JObj [(''action'', JStr ''loadReport''), (''reportId'', JStr i),
                    (''accessToken'', JNull)]) s \<and>
         Tile_load super_load opts requireId s =
           super_load opts requireId
             (JObj [(''action'', JStr ''loadTile''), (''tileId'', JStr i),
                    (''accessToken'', JNull)]) s \<and>
         Report_load (Embed_load invalid) opts requireId channel =
           (Inr (), channel @ [JObj [(''action'', JStr ''loadReport''), (''reportId'', JStr i),
                                     (''accessToken'', JNull)]]) \<and>
         Tile_load (Embed_load invalid) opts requireId channel =
           (Inr (), channel @ [JObj [(''action'', JStr ''loadTile''), (''tileId'', JStr i),
                                     (''accessToken'', JNull)]])"
  using assms by (simp add: Report_load_def Tile_load_def Embed_load_def)

theorem load_directive_witness:
  "options_id (example_options (JStr ''abc'') JUndefined) = JStr ''abc'' \<and>
   Report_load (Embed_load JNull) (example_options (JStr ''abc'') JUndefined) False [] =
     (Inr (), [JObj [(''action'', JStr ''loadReport''), (''reportId'', JStr ''abc''),
                     (''accessToken'', JNull)]]) \<and>
   Tile_load (Embed_load JNull) (example_options (JStr ''abc'') JUndefined) True [] =
     (Inr (), [JObj [(''action'', JStr ''loadTile''), (''tileId'', JStr ''abc''),
                     (''accessToken'', JNull)]])"
proof -
  have h: "options_id (example_options (JStr ''abc'') JUndefined) = JStr ''abc''"
    by (simp add: example_options_def)
  show ?thesis
    using h load_directive [OF h, of "Embed_load JNull" False "[]" JNull "[]"]
          load_directive [OF h, of "Embed_load JNull" True "[]" JNull "[]"]
    by (simp add: Embed_load_def example_options_def)
qed

subsection \<open>The embed URL of a report\<close>

text \<open>
  C4. When \<open>filterPaneEnabled\<close> of the held options is falsy (\<open>false\<close>, \<open>undefined\<close>, or
  any other value that \<open>!\<close> negates to true), \<open>Report.getEmbedUrl\<close> returns the base
  class's URL followed by \<open>&filterPaneEnabled=false\<close>; when it is truthy, the base
  class's URL unchanged.
\<close>

theorem getEmbedUrl_filterPane:
  "(\<not> truthy (filterPaneEnabled (options this)) \<longrightarrow>
      Report_getEmbedUrl super_getEmbedUrl this =
        super_getEmbedUrl this @ ''&filterPaneEnabled=false'') \<and>
   (truthy (filterPaneEnabled (options this)) \<longrightarrow>
      Report_getEmbedUrl super_getEmbedUrl this = super_getEmbedUrl this)"
  by (simp add: Report_getEmbedUrl_def)

theorem getEmbedUrl_filterPane_witness:
  "Report_getEmbedUrl example_base_url \<lparr> options = example_options (JStr ''abc'') (JBool False) \<rparr> =
     ''https://app/reportEmbed?reportId=1&filterPaneEnabled=false'' \<and>
   Report_getEmbedUrl example_base_url \<lparr> options = example_options (JStr ''abc'') JUndefined \<rparr> =
     ''https://app/reportEmbed?reportId=1&filterPaneEnabled=false'' \<and>
   Report_getEmbedUrl example_base_url \<lparr> options = example_options (JStr ''abc'') (JBool True) \<rparr> =
     ''https://app/reportEmbed?reportId=1''"
  using getEmbedUrl_filterPane [of "\<lparr> options = example_options (JStr ''abc'') (JBool False) \<rparr>" example_base_url]
        getEmbedUrl_filterPane [of "\<lparr> options = example_options (JStr ''abc'') JUndefined \<rparr>" example_base_url]
        getEmbedUrl_filterPane [of "\<lparr> options = example_options (JStr ''abc'') (JBool True) \<rparr>" example_base_url]
  by (simp add: example_options_def example_base_url_def)

subsection \<open>Requests of a page\<close>

text \<open>
  C7. Whatever the page's \<open>displayName\<close> and \<open>isActive\<close> fields hold, \<open>Page.setActive\<close>
  makes exactly one call on the channel: a put to \<open>/report/pages/active\<close> with payload
  \<open>{name: <page.name>, displayName: null, isActive: true}\<close>, the headers
  \<open>{uid: <report.config.uniqueId>}\<close> and the report's iframe window.
\<close>

theorem setActive_payload:
  "sent (snd (setActive (st\<lparr>self := (self st)\<lparr>displayName := d, isActive := a\<rparr>\<rparr>))) =
     sent st @ [HpmPut ''/report/pages/active''
                       (JObj [(''name'', JStr (name (self st))), (''displayName'', JNull),
                              (''isActive'', JBool True)])
                       (JObj [(''uid'', JStr (uniqueId (config (report (self st)))))])
                       (contentWindow (iframe (report (self st))))]"
  by (simp add: op_defs uid_headers_def split: prod.splits)

text \<open>
  C10. For every string \<open>d\<close>, \<open>Page.setDisplayName(d)\<close> makes exactly one call on the
  channel: a put to \<open>/report/pages/{name}/name\<close> with payload
  \<open>{name: <page.name>, displayName: d}\<close>. The call is the same whatever the page's own
  \<open>displayName\<close> field holds, and the page is the same after the operation.
\<close>

theorem setDisplayName_payload:
  "sent (snd (setDisplayName (JStr d) (st\<lparr>self := (self st)\<lparr>displayName := old\<rparr>\<rparr>))) =
     sent st @ [HpmPut (''/report/pages/'' @ name (self st) @ ''/name'')
                       (JObj [(''name'', JStr (name (self st))), (''displayName'', JStr d)])
                       (JObj [(''uid'', JStr (uniqueId (config (report (self st)))))])
                       (contentWindow (iframe (report (self st))))] \<and>
   self (snd (setDisplayName (JStr d) st)) = self st"
  by (simp add: op_defs uid_headers_def split: prod.splits)

text \<open>
  C6. \<open>Page.removeFilters()\<close> and \<open>Page.setFilters([])\<close> give the same settled promise
  and the same state: one put to \<open>/report/pages/{name}/filters\<close> with payload \<open>[]\<close>.
\<close>

theorem removeFilters_setFilters_empty:
  "removeFilters st = setFilters (JArr []) st \<and>
   sent (snd (removeFilters st)) =
     sent st @ [HpmPut (''/report/pages/'' @ name (self st) @ ''/filters'') (JArr [])
                       (JObj [(''uid'', JStr (uniqueId (config (report (self st)))))])
                       (contentWindow (iframe (report (self st))))]"
  by (simp add: op_defs uid_headers_def split: prod.splits)

subsection \<open>The capability gate\<close>

text \<open>
  C3. When \<open>isRDLEmbed\<close> holds of the owning report's embed URL, \<open>Page.getVisuals\<close> and
  \<open>Page.hasLayout\<close> reject with \<open>APINotSupportedForRDLError\<close> and the state, with the
  calls made on the channel, is as before. When it does not hold, each makes its one
  get call on the channel.
\<close>

theorem rdl_gate:
  "(isRDLEmbed ext (embedUrl (config (report (self st)))) \<longrightarrow>
      getVisuals ext st = (Rejected (APINotSupportedForRDLError ext), st) \<and>
      hasLayout ext layoutType st = (Rejected (APINotSupportedForRDLError ext), st)) \<and>
   (\<not> isRDLEmbed ext (embedUrl (config (report (self st)))) \<longrightarrow>
      sent (snd (getVisuals ext st)) =
        sent st @ [HpmGet (''/report/pages/'' @ name (self st) @ ''/visuals'')
                          (JObj [(''uid'', JStr (uniqueId (config (report (self st)))))])
                          (contentWindow (iframe (report (self st))))] \<and>
      sent (snd (hasLayout ext layoutType st)) =
        sent st @ [HpmGet (''/report/pages/'' @ name (self st) @ ''/layoutTypes/''
                             @ js_to_string (LayoutType ext layoutType))
                          (JObj [(''uid'', JStr (uniqueId (config (report (self st)))))])
                          (contentWindow (iframe (report (self st))))])"
  by (simp add: op_defs uid_headers_def split: prod.splits)

theorem rdl_gate_witness:
  "isRDLEmbed example_externals
     (embedUrl (config (report (self (example_state (Resolves (JObj [(''body'', JBool True)]))
        ''https://app/rdlEmbed?reportId=1''))))) \<and>
   getVisuals example_externals
     (example_state (Resolves (JObj [(''body'', JBool True)])) ''https://app/rdlEmbed?reportId=1'') =
     (Rejected (JStr ''This API is not supported for RDL reports''),
      example_state (Resolves (JObj [(''body'', JBool True)])) ''https://app/rdlEmbed?reportId=1'') \<and>
   sent (snd (hasLayout example_externals (JStr ''Master'')
     (example_state (Resolves (JObj [(''body'', JBool True)])) ''https://app/rdlEmbed?reportId=1''))) = [] \<and>
   \<not> isRDLEmbed example_externals
     (embedUrl (config (report (self (example_state (Resolves (JObj [(''body'', JBool True)]))
        ''https://app/reportEmbed?reportId=1''))))) \<and>
   sent (snd (getVisuals example_externals
     (example_state (Resolves (JObj [(''body'', JBool True)])) ''https://app/reportEmbed?reportId=1''))) =
     [HpmGet ''/report/pages/ReportSection1/visuals'' (JObj [(''uid'', JStr ''u1'')]) 7] \<and>
   sent (snd (hasLayout example_externals (JStr ''Master'')
     (example_state (Resolves (JObj [(''body'', JBool True)])) ''https://app/reportEmbed?reportId=1''))) =
     [HpmGet ''/report/pages/ReportSection1/layoutTypes/0'' (JObj [(''uid'', JStr ''u1'')]) 7]"
  using rdl_gate [of example_externals
          "example_state (Resolves (JObj [(''body'', JBool True)])) ''https://app/rdlEmbed?reportId=1''"
          "JStr ''Master''"]
        rdl_gate [of example_externals
          "example_state (Resolves (JObj [(''body'', JBool True)])) ''https://app/reportEmbed?reportId=1''"
          "JStr ''Master''"]
  by (simp add: example_defs number_to_string_zero)

subsection \<open>What the promise of a page operation settles with\<close>

text \<open>
  C2. For every remote operation of a page, let \<open>c\<close> be the call it makes on the
  channel, with the headers \<open>{uid: <report.config.uniqueId>}\<close> and the report's iframe
  window (for \<open>getVisuals\<close> and \<open>hasLayout\<close>, where \<open>isRDLEmbed\<close> does not hold of the
  embed URL, so that the call is made). If the channel rejects \<open>c\<close> with an envelope
  whose \<open>body\<close> is \<open>E\<close>, the operation makes that one call and rejects with \<open>E\<close> itself.
\<close>

theorem rejection_body:
  assumes "hdr = JObj [(''uid'', JStr (uniqueId (config (report (self st)))))]"
    and "win = contentWindow (iframe (report (self st)))"
    and "c = (case op of
            GetFilters \<Rightarrow> HpmGet (''/report/pages/'' @ name (self st) @ ''/filters'') hdr win
          | Delete \<Rightarrow> HpmDelete (''/report/pages/'' @ name (self st)) (JObj []) hdr win
          | RemoveFilters \<Rightarrow>
              HpmPut (''/report/pages/'' @ name (self st) @ ''/filters'') (JArr []) hdr win
          | SetActive \<Rightarrow>
              HpmPut ''/report/pages/active''
                (JObj [(''name'', JStr (name (self st))), (''displayName'', JNull),
                       (''isActive'', JBool True)]) hdr win
          | SetFilters filters \<Rightarrow>
              HpmPut (''/report/pages/'' @ name (self st) @ ''/filters'') filters hdr win
          | SetDisplayName dn \<Rightarrow>
              HpmPut (''/report/pages/'' @ name (self st) @ ''/name'')
                (JObj [(''name'', JStr (name (self st))), (''displayName'', dn)]) hdr win
          | GetVisuals \<Rightarrow> HpmGet (''/report/pages/'' @ name (self st) @ ''/visuals'') hdr win
          | HasLayout layoutType \<Rightarrow>
              HpmGet (''/report/pages/'' @ name (self st) @ ''/layoutTypes/''
                        @ js_to_string (LayoutType ext layoutType)) hdr win)"
    and "case op of
            GetVisuals \<Rightarrow> \<not> isRDLEmbed ext (embedUrl (config (report (self st))))
          | HasLayout layoutType \<Rightarrow> \<not> isRDLEmbed ext (embedUrl (config (report (self st))))
          | _ \<Rightarrow> True"
    and "hpm (service (report (self st))) c = Rejects (JObj fs)"
    and "map_of fs ''body'' = Some E"
  shows "invoke ext op st = (Rejected E, st\<lparr>sent := sent st @ [c]\<rparr>)"
  using assms
  by (cases op) (simp_all add: op_defs uid_headers_def throw_body_envelope)

theorem rejection_body_witness:
  "invoke example_externals GetFilters
     (example_state (Rejects (JObj [(''statusCode'', JNum 400), (''body'', JStr ''denied'')]))
        ''https://app/reportEmbed?reportId=1'') =
     (Rejected (JStr ''denied''),
      (example_state (Rejects (JObj [(''statusCode'', JNum 400), (''body'', JStr ''denied'')]))
         ''https://app/reportEmbed?reportId=1'')
      \<lparr>sent := [HpmGet ''/report/pages/ReportSection1/filters''
                       (JObj [(''uid'', JStr ''u1'')]) 7]\<rparr>) \<and>
   invoke example_externals (HasLayout (JStr ''Master''))
     (example_state (Rejects (JObj [(''statusCode'', JNum 400), (''body'', JStr ''denied'')]))
        ''https://app/reportEmbed?reportId=1'') =
     (Rejected (JStr ''denied''),
      (example_state (Rejects (JObj [(''statusCode'', JNum 400), (''body'', JStr ''denied'')]))
         ''https://app/reportEmbed?reportId=1'')
      \<lparr>sent := [HpmGet ''/report/pages/ReportSection1/layoutTypes/0''
                       (JObj [(''uid'', JStr ''u1'')]) 7]\<rparr>) \<and>
   invoke example_externals (SetFilters (JArr [JStr ''f'']))
     (example_state (Rejects (JObj [(''statusCode'', JNum 400), (''body'', JStr ''denied'')]))
        ''https://app/reportEmbed?reportId=1'') =
     (Rejected (JStr ''denied''),
      (example_state (Rejects (JObj [(''statusCode'', JNum 400), (''body'', JStr ''denied'')]))
         ''https://app/reportEmbed?reportId=1'')
      \<lparr>sent := [HpmPut ''/report/pages/ReportSection1/filters'' (JArr [JStr ''f''])
                       (JObj [(''uid'', JStr ''u1'')]) 7]\<rparr>)"
proof -
  let ?fs = "[(''statusCode'', JNum 400), (''body'', JStr ''denied'')]"
  let ?st = "example_state (Rejects (JObj ?fs)) ''https://app/reportEmbed?reportId=1''"
  let ?hdr = "JObj [(''uid'', JStr ''u1'')]"
  have st: "name (self ?st) = ''ReportSection1''"
       "uniqueId (config (report (self ?st))) = ''u1''"
       "contentWindow (iframe (report (self ?st))) = 7"
       "\<not> isRDLEmbed example_externals (embedUrl (config (report (self ?st))))"
       "\<And>c. hpm (service (report (self ?st))) c = Rejects (JObj ?fs)"
       "sent ?st = []"
       "js_to_string (LayoutType example_externals (JStr ''Master'')) = ''0''"
    by (simp_all add: example_defs number_to_string_zero)
  show ?thesis
    using rejection_body [where op = GetFilters and st = ?st and ext = example_externals
            and hdr = ?hdr and win = 7 and fs = ?fs and E = "JStr ''denied''"
            and c = "HpmGet ''/report/pages/ReportSection1/filters'' ?hdr 7"]
          rejection_body [where op = "HasLayout (JStr ''Master'')" and st = ?st
            and ext = example_externals
            and hdr = ?hdr and win = 7 and fs = ?fs and E = "JStr ''denied''"
            and c = "HpmGet ''/report/pages/ReportSection1/layoutTypes/0'' ?hdr 7"]
          rejection_body [where op = "SetFilters (JArr [JStr ''f''])" and st = ?st
            and ext = example_externals
            and hdr = ?hdr and win = 7 and fs = ?fs and E = "JStr ''denied''"
            and c = "HpmPut ''/report/pages/ReportSection1/filters'' (JArr [JStr ''f'']) ?hdr 7"]
    by (simp add: st)
qed




subsection \<open>Frame\<close>

text \<open>
  C9. No remote operation of a page changes the page: after the operation, whatever its
  outcome, the page object, with all its fields and the configuration of its owning
  report, is what it was before.
\<close>

theorem page_unchanged: "self (snd (invoke ext op st)) = self st"
  by (cases op) (auto simp: op_defs split: prod.splits)

end
